theory Spec2Isabelle
  imports Complex_Main "HOL-Library.FSet"
begin

section \<open>Python values held in DataFrame cells\<close>

text \<open>
  A cell of a pandas DataFrame, as \<^verbatim>\<open>main.py\<close> sees it after \<^verbatim>\<open>pd.read_csv\<close>: an
  integer (an int64 column), a float (a float64 column), the missing value NaN, or text
  (an object column). Floats are modelled by the exact rational they denote; the model
  agrees with IEEE doubles on decimals of at most 15 significant digits, which covers
  every radio identifier (DMR identifiers have 24 bits).
\<close>

datatype pyval = PInt int | PFloat rat | PNaN | PStr string

subsection \<open>\<^verbatim>\<open>str(x)\<close>\<close>

definition digit_char :: "nat \<Rightarrow> char" where
  "digit_char d = ''0123456789'' ! d"

fun str_nat :: "nat \<Rightarrow> string" where
  "str_nat n = (if n < 10 then [digit_char n] else str_nat (n div 10) @ [digit_char (n mod 10)])"

declare str_nat.simps [simp del]

definition str_int :: "int \<Rightarrow> string" where
  "str_int i = (if i < 0 then CHR ''-'' # str_nat (nat (- i)) else str_nat (nat i))"

text \<open>
  The digits after the decimal point of a float that is not integral, in positional
  notation (at most \<open>k\<close> of them). Python prints the shortest digits that read back as
  the same double and switches to exponent notation outside \<open>[1e-4, 1e16)\<close>; both are
  outside the model.
\<close>

fun frac_digits :: "nat \<Rightarrow> rat \<Rightarrow> string" where
  "frac_digits 0 r = []"
| "frac_digits (Suc k) r =
     (if r = 0 then []
      else digit_char (nat \<lfloor>r * 10\<rfloor>) # frac_digits k (r * 10 - of_int \<lfloor>r * 10\<rfloor>))"

definition is_integral :: "rat \<Rightarrow> bool" where
  "is_integral q = (of_int \<lfloor>q\<rfloor> = q)"

definition str_float :: "rat \<Rightarrow> string" where
  "str_float q =
     (if is_integral q then str_int \<lfloor>q\<rfloor> @ ''.0''
      else (if q < 0 then ''-'' else '''') @ str_nat (nat \<lfloor>\<bar>q\<bar>\<rfloor>) @ ''.''
           @ frac_digits 17 (\<bar>q\<bar> - of_int \<lfloor>\<bar>q\<bar>\<rfloor>))"

fun py_str :: "pyval \<Rightarrow> string" where
  "py_str (PInt i) = str_int i"
| "py_str (PFloat q) = str_float q"
| "py_str PNaN = ''nan''"
| "py_str (PStr s) = s"

section \<open>\<^verbatim>\<open>class SelectionManager\<close>\<close>

text \<open>
  The object holds one field, \<^verbatim>\<open>selected_ids\<close>, a Python set of strings; a Python set is
  finite, so it is a finite set here. Each method takes the set and returns the new one.
\<close>

type_synonym selection_manager = "string fset"

definition selection_init :: selection_manager where
  "selection_init = {||}"

definition toggle_selection :: "selection_manager \<Rightarrow> pyval \<Rightarrow> selection_manager" where
  "toggle_selection selected_ids ident =
     (let id_str = py_str ident
      in if id_str |\<in>| selected_ids then selected_ids |-| {|id_str|}
         else finsert id_str selected_ids)"

definition select_all :: "selection_manager \<Rightarrow> pyval list \<Rightarrow> selection_manager" where
  "select_all selected_ids id_list = selected_ids |\<union>| fset_of_list (map py_str id_list)"

definition select_only :: "selection_manager \<Rightarrow> pyval list \<Rightarrow> selection_manager" where
  "select_only selected_ids id_list = fset_of_list (map py_str id_list)"

definition deselect_all :: "selection_manager \<Rightarrow> selection_manager" where
  "deselect_all selected_ids = {||}"

definition is_selected :: "selection_manager \<Rightarrow> pyval \<Rightarrow> bool" where
  "is_selected selected_ids ident = (py_str ident |\<in>| selected_ids)"

definition get_selected_from_filtered :: "selection_manager \<Rightarrow> pyval list \<Rightarrow> string fset" where
  "get_selected_from_filtered selected_ids filtered_ids =
     selected_ids |\<inter>| fset_of_list (map py_str filtered_ids)"

section \<open>Properties of the selection store\<close>

lemma toggle_selection_twice: "toggle_selection (toggle_selection s x) x = s"
  by (auto simp: toggle_selection_def Let_def)

text \<open>
  C8. \<^verbatim>\<open>toggle_selection\<close> is its own inverse: for every store and every identifier, the
  answer of \<^verbatim>\<open>is_selected\<close> after two consecutive toggles of the identifier is the
  answer before either of them.
\<close>

theorem toggle_twice_is_selected:
  "is_selected (toggle_selection (toggle_selection s x) x) x = is_selected s x"
  by (simp add: toggle_selection_twice)

end
